theory Spec2Isabelle
  imports Complex_Main
begin

section \<open>The portfolio page (\<open>src/frontend/app/page.tsx\<close>)\<close>

text \<open>
  The page is one React component, \<open>Home\<close>. It owns one piece of state (the boolean
  \<open>darkMode\<close>), one effect that copies the media query \<open>prefers-color-scheme: dark\<close>
  into that state, two objects derived from the state (\<open>theme\<close> and \<open>styles\<close>), four
  constant arrays of content, the function \<open>scrollToSection\<close>, and the element tree it
  returns.
\<close>

subsection \<open>JavaScript values\<close>

text \<open>
  Object literals keep their keys in insertion order, so an object is an association
  list. Number literals are kept exactly (the source never computes with them, apart
  from \<open>offsetTop - 64\<close>, which is modelled on integers below).
\<close>

datatype jsval =
    Undefined
  | Str string
  | Num rat
  | Bool bool
  | Obj "(string \<times> jsval) list"

text \<open>Property access \<open>o.k\<close>: the value stored under the key, \<open>undefined\<close> otherwise.\<close>

fun lookup :: "(string \<times> jsval) list \<Rightarrow> string \<Rightarrow> jsval" where
  "lookup [] k = Undefined"
| "lookup ((k', v) # kvs) k = (if k' = k then v else lookup kvs k)"

fun get_prop :: "jsval \<Rightarrow> string \<Rightarrow> jsval" where
  "get_prop (Obj kvs) k = lookup kvs k"
| "get_prop _ k = Undefined"

text \<open>
  An entry \<open>k: v\<close> written after a spread \<open>...o\<close> in an object literal: an existing key
  keeps its position and takes the new value, a new key is appended.
\<close>

fun assign :: "(string \<times> jsval) list \<Rightarrow> string \<Rightarrow> jsval \<Rightarrow> (string \<times> jsval) list" where
  "assign [] k v = [(k, v)]"
| "assign ((k', v') # kvs) k v = (if k' = k then (k', v) # kvs else (k', v') # assign kvs k v)"

fun spread :: "jsval \<Rightarrow> (string \<times> jsval) list \<Rightarrow> jsval" where
  "spread (Obj kvs) new = Obj (fold (\<lambda>(k, v) acc. assign acc k v) new kvs)"
| "spread _ new = Obj (fold (\<lambda>(k, v) acc. assign acc k v) new [])"

subsection \<open>\<open>theme\<close>: the options given to \<open>createTheme\<close>\<close>

text \<open>
  \<open>createTheme\<close> is library code; the theme is modelled by the options object the
  component builds, which is where every value the page reads back
  (\<open>theme.palette.primary.main\<close>) comes from.
\<close>

definition theme :: "bool \<Rightarrow> jsval" where
  "theme darkMode = Obj [
     (''palette'', Obj [
        (''mode'', Str (if darkMode then ''dark'' else ''light'')),
        (''primary'', Obj [(''main'', Str ''#3a86ff'')]),
        (''secondary'', Obj [(''main'', Str ''#ff006e'')]),
        (''background'', Obj [
           (''default'', Str (if darkMode then ''#0a1929'' else ''#f8fafc'')),
           (''paper'', Str (if darkMode then ''#132f4c'' else ''#ffffff''))])]),
     (''typography'', Obj [
        (''fontFamily'', Str ''\"Inter\", \"Roboto\", \"Helvetica\", \"Arial\", sans-serif''),
        (''h1'', Obj [(''fontWeight'', Num 700)]),
        (''h2'', Obj [(''fontWeight'', Num 700)]),
        (''h3'', Obj [(''fontWeight'', Num 600)]),
        (''h4'', Obj [(''fontWeight'', Num 600)]),
        (''h5'', Obj [(''fontWeight'', Num 600)]),
        (''h6'', Obj [(''fontWeight'', Num 600)])]),
     (''shape'', Obj [(''borderRadius'', Num 12)]),
     (''components'', Obj [
        (''MuiButton'', Obj [(''styleOverrides'', Obj [(''root'', Obj [
           (''textTransform'', Str ''none''),
           (''fontWeight'', Num 600),
           (''borderRadius'', Num 8),
           (''padding'', Str ''10px 20px'')])])]),
        (''MuiCard'', Obj [(''styleOverrides'', Obj [(''root'', Obj [
           (''borderRadius'', Num 16),
           (''overflow'', Str ''hidden'')])])]),
        (''MuiPaper'', Obj [(''styleOverrides'', Obj [(''root'', Obj [
           (''borderRadius'', Num 16)])])])])]"

text \<open>The reads \<open>theme.palette\<close>, \<open>theme.palette.primary.main\<close> and their siblings.\<close>

definition palette :: "bool \<Rightarrow> jsval" where
  "palette darkMode = get_prop (theme darkMode) ''palette''"

definition primary_main :: "bool \<Rightarrow> jsval" where
  "primary_main darkMode = get_prop (get_prop (palette darkMode) ''primary'') ''main''"

definition secondary_main :: "bool \<Rightarrow> jsval" where
  "secondary_main darkMode = get_prop (get_prop (palette darkMode) ''secondary'') ''main''"

definition background_default :: "bool \<Rightarrow> jsval" where
  "background_default darkMode = get_prop (get_prop (palette darkMode) ''background'') ''default''"

definition background_paper :: "bool \<Rightarrow> jsval" where
  "background_paper darkMode = get_prop (get_prop (palette darkMode) ''background'') ''paper''"

subsection \<open>\<open>styles\<close>\<close>

definition styles :: "bool \<Rightarrow> jsval" where
  "styles darkMode = Obj [
     (''gradientBg'', Obj [
        (''background'', Str (if darkMode
           then ''linear-gradient(to bottom right, #0a1929, #132f4c)''
           else ''linear-gradient(to bottom right, #f8fafc, #e2e8f0)'')),
        (''minHeight'', Str ''100vh'')]),
     (''navBar'', Obj [
        (''backdropFilter'', Str ''blur(12px)''),
        (''backgroundColor'', Str (if darkMode then ''rgba(19, 47, 76, 0.8)'' else ''rgba(255, 255, 255, 0.8)'')),
        (''boxShadow'', Str (if darkMode then ''0 4px 30px rgba(0, 0, 0, 0.1)'' else ''0 4px 30px rgba(0, 0, 0, 0.05)'')),
        (''borderRadius'', Str ''0px'')]),
     (''heroSection'', Obj [
        (''position'', Str ''relative''),
        (''overflow'', Str ''hidden''),
        (''padding'', Str ''6rem 0 10rem 0''),
        (''backgroundColor'', Str (if darkMode then ''#132f4c'' else ''#ffffff''))]),
     (''heroGradient'', Obj [
        (''position'', Str ''absolute''),
        (''inset'', Num 0),
        (''zIndex'', Num 0),
        (''opacity'', Num (1 / 10))]),
     (''innerGradient'', Obj [
        (''position'', Str ''absolute''),
        (''inset'', Num 0),
        (''background'', Str ''linear-gradient(to right, #3a86ff, #ff006e)''),
        (''transform'', Str ''rotate(12deg) translateX(50%) translateY(33%)'')]),
     (''sectionTitle'', Obj [
        (''fontWeight'', Str ''bold''),
        (''marginBottom'', Str ''0.5rem''),
        (''textAlign'', Str ''center''),
        (''position'', Str ''relative''),
        (''zIndex'', Num 1)]),
     (''divider'', Obj [
        (''width'', Str ''5rem''),
        (''height'', Str ''4px''),
        (''margin'', Str ''0.5rem auto 2rem auto''),
        (''backgroundColor'', Str ''#3a86ff''),
        (''borderRadius'', Str ''2px'')]),
     (''projectCard'', Obj [
        (''height'', Str ''100%''),
        (''display'', Str ''flex''),
        (''flexDirection'', Str ''column''),
        (''transition'', Str ''transform 0.3s ease, box-shadow 0.3s ease''),
        (''&:hover'', Obj [
           (''transform'', Str ''translateY(-8px)''),
           (''boxShadow'', Str ''0 16px 40px rgba(0, 0, 0, 0.12)'')])]),
     (''skillLabel'', Obj [
        (''display'', Str ''flex''),
        (''justifyContent'', Str ''space-between''),
        (''marginBottom'', Str ''0.25rem'')]),
     (''skillProgress'', Obj [
        (''height'', Num 8),
        (''borderRadius'', Num 4),
        (''backgroundColor'', Str (if darkMode then ''rgba(255, 255, 255, 0.1)'' else ''rgba(0, 0, 0, 0.05)''))]),
     (''skillProgressBar'', Obj [
        (''backgroundImage'', Str ''linear-gradient(to right, #3a86ff, #5e60ce)''),
        (''borderRadius'', Num 4)]),
     (''techTag'', Obj [
        (''padding'', Str ''0.5rem 1rem''),
        (''backgroundColor'', Str (if darkMode then ''rgba(255, 255, 255, 0.05)'' else ''rgba(0, 0, 0, 0.03)'')),
        (''borderRadius'', Str ''8px''),
        (''border'', Str (if darkMode then ''1px solid rgba(255, 255, 255, 0.1)'' else ''1px solid rgba(0, 0, 0, 0.05)'')),
        (''color'', Str (if darkMode then ''#e2e8f0'' else ''#334155'')),
        (''margin'', Str ''0.375rem''),
        (''display'', Str ''inline-block''),
        (''fontWeight'', Num 500)]),
     (''contactForm'', Obj [
        (''& .MuiTextField-root'', Obj [(''marginBottom'', Str ''1.5rem'')])]),
     (''socialIcon'', Obj [
        (''color'', Str (if darkMode then ''#e2e8f0'' else ''#475569'')),
        (''fontSize'', Str ''1.5rem''),
        (''marginRight'', Str ''1rem''),
        (''transition'', Str ''color 0.2s, transform 0.2s''),
        (''&:hover'', Obj [
           (''color'', Str ''#3a86ff''),
           (''transform'', Str ''translateY(-3px)'')])]),
     (''sectionContainer'', Obj [
        (''position'', Str ''relative''),
        (''zIndex'', Num 1)]),
     (''profileImage'', Obj [
        (''border'', Str (if darkMode then ''4px solid #132f4c'' else ''4px solid #ffffff'')),
        (''boxShadow'', Str (if darkMode
           then ''0 20px 40px rgba(0, 0, 0, 0.3)''
           else ''0 20px 40px rgba(0, 0, 0, 0.15)''))]),
     (''sectionShape'', Obj [
        (''position'', Str ''absolute''),
        (''bottom'', Num (- 100)),
        (''right'', Num (- 100)),
        (''width'', Num 300),
        (''height'', Num 300),
        (''borderRadius'', Str ''50%''),
        (''background'', Str ''linear-gradient(135deg, rgba(58, 134, 255, 0.1), rgba(255, 0, 110, 0.1))''),
        (''zIndex'', Num 0)])]"

subsection \<open>Content: the arrays declared in the component\<close>

record project =
  title :: string
  description :: string
  image_path :: string
  technologies :: "string list"
  github :: string
  demo :: string

record skill =
  name :: string
  proficiency :: int

record catalog =
  projectsData :: "project list"
  frontendSkills :: "skill list"
  backendSkills :: "skill list"
  otherTechnologies :: "string list"

text \<open>
  The four arrays as the source declares them (\<open>image\<close> is the field \<open>image_path\<close>
  here, and a skill's \<open>value\<close> is \<open>proficiency\<close>).
\<close>

definition content :: catalog where
  "content = \<lparr>
     projectsData = [
       \<lparr>title = ''E-commerce Platform'',
        description = ''A full-stack e-commerce solution with React, Node.js, and Stripe integration that handles 10,000+ monthly transactions.'',
        image_path = ''/project1.jpg'',
        technologies = [''React'', ''Node.js'', ''MongoDB''],
        github = ''https://github.com/johndoe/ecommerce'',
        demo = ''https://ecommerce-demo.example.com''\<rparr>,
       \<lparr>title = ''SaaS Analytics Dashboard'',
        description = ''An analytics dashboard for SaaS businesses with real-time data visualization and custom reporting features.'',
        image_path = ''/project2.jpg'',
        technologies = [''Next.js'', ''TypeScript'', ''D3.js''],
        github = ''https://github.com/johndoe/saas-dashboard'',
        demo = ''https://saas-dashboard.example.com''\<rparr>,
       \<lparr>title = ''AI Chat Application'',
        description = ''A real-time chat application with AI-powered responses and language translation supporting 20+ languages.'',
        image_path = ''/project3.jpg'',
        technologies = [''React'', ''Socket.io'', ''OpenAI API''],
        github = ''https://github.com/johndoe/ai-chat'',
        demo = ''https://ai-chat.example.com''\<rparr>],
     frontendSkills = [
       \<lparr>name = ''React / Next.js'', proficiency = 95\<rparr>,
       \<lparr>name = ''TypeScript'', proficiency = 90\<rparr>,
       \<lparr>name = ''UI/UX Design'', proficiency = 85\<rparr>],
     backendSkills = [
       \<lparr>name = ''Node.js / Express'', proficiency = 85\<rparr>,
       \<lparr>name = ''Database Design'', proficiency = 80\<rparr>,
       \<lparr>name = ''GraphQL'', proficiency = 75\<rparr>],
     otherTechnologies = [
       ''Docker'', ''AWS'', ''CI/CD'', ''Jest'', ''Git'',
       ''Redux'', ''Firebase'', ''Webpack'', ''TailwindCSS'', ''Figma'']\<rparr>"

subsection \<open>The element tree\<close>

text \<open>
  What a handler does when it is called. The closures of the source are
  \<open>() => scrollToSection(id)\<close> and \<open>() => setDarkMode(!darkMode)\<close>; the second captures
  the \<open>darkMode\<close> of the render that created it.
\<close>

datatype action = ScrollToSection string | SetDarkMode bool

text \<open>
  A JSX attribute is a value, a handler, or an element (\<open>startIcon={<FaGithub />}\<close>).
  A child is a text, a number (\<open>{new Date().getFullYear()}\<close>), an array
  (\<open>{xs.map(...)}\<close>) or an element with its attributes in source order and its
  children. JSX text is taken as the compiler delivers it: lines trimmed and joined by
  one space, entities decoded, bytes of UTF-8 for what is not ASCII.
\<close>

datatype 'n attr = Val jsval | Handler action | Node 'n

datatype vnode =
    Text string
  | Number int
  | Arr "vnode list"
  | Elem string "(string \<times> vnode attr) list" "vnode list"

abbreviation str :: "string \<Rightarrow> string \<Rightarrow> string \<times> vnode attr" where
  "str k s \<equiv> (k, Val (Str s))"

abbreviation num :: "string \<Rightarrow> rat \<Rightarrow> string \<times> vnode attr" where
  "num k n \<equiv> (k, Val (Num n))"

abbreviation flag :: "string \<Rightarrow> string \<times> vnode attr" where
  "flag k \<equiv> (k, Val (Bool True))"

abbreviation sx :: "(string \<times> jsval) list \<Rightarrow> string \<times> vnode attr" where
  "sx kvs \<equiv> (''sx'', Val (Obj kvs))"

abbreviation onClick :: "action \<Rightarrow> string \<times> vnode attr" where
  "onClick a \<equiv> (''onClick'', Handler a)"

text \<open>Navigation bar.\<close>

definition navigationBar :: "bool \<Rightarrow> vnode" where
  "navigationBar darkMode =
   Elem ''AppBar'' [str ''position'' ''sticky'', num ''elevation'' 0,
       (''sx'', Val (get_prop (styles darkMode) ''navBar'')), str ''color'' ''transparent''] [
     Elem ''Container'' [str ''maxWidth'' ''lg''] [
       Elem ''Toolbar'' [sx [(''justifyContent'', Str ''space-between'')]] [
         Elem ''Typography'' [str ''variant'' ''h6'', str ''fontWeight'' ''bold'', str ''color'' ''text.primary''] [
           Elem ''Box'' [str ''component'' ''span'', sx [(''color'', primary_main darkMode)]] [Text ''John''],
           Text ''Doe''],
         Elem ''Box'' [sx [(''display'', Str ''flex''), (''alignItems'', Str ''center'')]] [
           Elem ''Box'' [sx [(''display'', Obj [(''xs'', Str ''none''), (''md'', Str ''flex'')])]] [
             Elem ''Button'' [onClick (ScrollToSection ''about''), str ''color'' ''inherit'', sx [(''mx'', Num 1)]]
               [Text ''About''],
             Elem ''Button'' [onClick (ScrollToSection ''projects''), str ''color'' ''inherit'', sx [(''mx'', Num 1)]]
               [Text ''Projects''],
             Elem ''Button'' [onClick (ScrollToSection ''skills''), str ''color'' ''inherit'', sx [(''mx'', Num 1)]]
               [Text ''Skills''],
             Elem ''Button'' [onClick (ScrollToSection ''contact''), str ''color'' ''inherit'', sx [(''mx'', Num 1)]]
               [Text ''Contact'']],
           Elem ''Box'' [sx [
               (''display'', Str ''flex''),
               (''alignItems'', Str ''center''),
               (''ml'', Num 2),
               (''borderLeft'', Obj [(''xs'', Str ''none''), (''md'', Str ''1px solid'')]),
               (''borderColor'', Str ''divider''),
               (''borderRight'', Obj [(''xs'', Str ''none''), (''md'', Str ''1px solid'')]),
               (''pl'', Obj [(''xs'', Num 0), (''md'', Num 2)]),
               (''pr'', Obj [(''xs'', Num 0), (''md'', Num 2)])]] [
             Elem ''IconButton'' [
                 str ''href'' ''https://github.com/johndoe'',
                 str ''target'' ''_blank'',
                 str ''rel'' ''noopener noreferrer'',
                 str ''color'' ''inherit'',
                 str ''size'' ''small'',
                 sx [(''mx'', Num (1 / 2)),
                     (''transition'', Str ''transform 0.2s, color 0.2s''),
                     (''&:hover'', Obj [
                        (''color'', Str (if darkMode then ''#f0f6fc'' else ''#24292e'')),
                        (''transform'', Str ''translateY(-3px)'')])]]
               [Elem ''FaGithub'' [] []],
             Elem ''IconButton'' [
                 str ''href'' ''https://linkedin.com/in/johndoe'',
                 str ''target'' ''_blank'',
                 str ''rel'' ''noopener noreferrer'',
                 str ''color'' ''inherit'',
                 str ''size'' ''small'',
                 sx [(''mx'', Num (1 / 2)),
                     (''transition'', Str ''transform 0.2s, color 0.2s''),
                     (''&:hover'', Obj [
                        (''color'', Str ''#0a66c2''),
                        (''transform'', Str ''translateY(-3px)'')])]]
               [Elem ''FaLinkedinIn'' [] []],
             Elem ''IconButton'' [
                 str ''href'' ''https://twitter.com/johndoe'',
                 str ''target'' ''_blank'',
                 str ''rel'' ''noopener noreferrer'',
                 str ''color'' ''inherit'',
                 str ''size'' ''small'',
                 sx [(''mx'', Num (1 / 2)),
                     (''transition'', Str ''transform 0.2s, color 0.2s''),
                     (''&:hover'', Obj [
                        (''color'', Str ''#1da1f2''),
                        (''transform'', Str ''translateY(-3px)'')])]]
               [Elem ''FaTwitter'' [] []]],
           Elem ''Box'' [sx [(''display'', Str ''flex''), (''alignItems'', Str ''center''), (''ml'', Num 2)]] [
             Elem ''IconButton'' [onClick (SetDarkMode (\<not> darkMode)), sx [(''ml'', Num 1)], str ''color'' ''inherit'']
               [if darkMode then Elem ''IoSunny'' [] [] else Elem ''IoMoon'' [] []]]]]]]"

text \<open>Hero section.\<close>

definition heroSection :: "bool \<Rightarrow> vnode" where
  "heroSection darkMode =
   Elem ''Box'' [(''sx'', Val (get_prop (styles darkMode) ''heroSection''))] [
     Elem ''Box'' [(''sx'', Val (get_prop (styles darkMode) ''heroGradient''))] [
       Elem ''Box'' [(''sx'', Val (get_prop (styles darkMode) ''innerGradient''))] []],
     Elem ''Container'' [str ''maxWidth'' ''lg'', sx [(''position'', Str ''relative''), (''zIndex'', Num 1)]] [
       Elem ''MuiGrid'' [flag ''container'', num ''spacing'' 6, str ''alignItems'' ''center''] [
         Elem ''MuiGrid'' [sx [(''mb'', Obj [(''xs'', Num 4), (''md'', Num 0)])]] [
           Elem ''Typography'' [
               str ''variant'' ''h2'',
               str ''component'' ''h1'',
               str ''fontWeight'' ''bold'',
               flag ''gutterBottom'',
               sx [(''fontSize'', Obj [(''xs'', Str ''2.5rem''), (''md'', Str ''3.5rem'')]),
                   (''lineHeight'', Num (12 / 10))]] [
             Text ''Hi, I'm Alex Shaw'',
             Elem ''Typography'' [
                 str ''variant'' ''h2'',
                 str ''component'' ''span'',
                 str ''fontWeight'' ''bold'',
                 str ''color'' ''primary'',
                 str ''display'' ''block'',
                 sx [(''fontSize'', Obj [(''xs'', Str ''2.5rem''), (''md'', Str ''3.5rem'')]),
                     (''lineHeight'', Num (12 / 10)),
                     (''background'', Str ''linear-gradient(to right, #3a86ff, #ff006e)''),
                     (''WebkitBackgroundClip'', Str ''text''),
                     (''WebkitTextFillColor'', Str ''transparent'')]]
               [Text ''Full Stack Developer'']],
           Elem ''Typography'' [
               str ''variant'' ''h6'',
               str ''color'' ''text.secondary'',
               sx [(''fontSize'', Str ''1.1rem''), (''mt'', Num 3), (''mb'', Num 4)]]
             [Text ''I create sophisticated web applications that deliver exceptional user experiences with modern technologies and clean code.''],
           Elem ''Box'' [sx [(''display'', Str ''flex''), (''gap'', Num 2), (''mt'', Num 3)]] [
             Elem ''Button'' [
                 onClick (ScrollToSection ''contact''),
                 str ''variant'' ''contained'',
                 str ''color'' ''primary'',
                 sx [(''px'', Num 4),
                     (''py'', Num (15 / 10)),
                     (''borderRadius'', Num 2),
                     (''background'', Str ''linear-gradient(to right, #3a86ff, #5e60ce)'')]]
               [Text ''Get in Touch''],
             Elem ''Button'' [
                 onClick (ScrollToSection ''projects''),
                 str ''variant'' ''outlined'',
                 sx [(''px'', Num 4), (''py'', Num (15 / 10)), (''borderRadius'', Num 2)]]
               [Text ''View Work'']]],
         Elem ''MuiGrid'' [sx [(''textAlign'', Str ''center'')]] [
           Elem ''Box'' [sx [
               (''position'', Str ''relative''),
               (''width'', Obj [(''xs'', Num 280), (''lg'', Num 360)]),
               (''height'', Obj [(''xs'', Num 280), (''lg'', Num 360)]),
               (''borderRadius'', Str ''50%''),
               (''overflow'', Str ''hidden''),
               (''border'', get_prop (get_prop (styles darkMode) ''profileImage'') ''border''),
               (''boxShadow'', get_prop (get_prop (styles darkMode) ''profileImage'') ''boxShadow''),
               (''mx'', Str ''auto''),
               (''&::before'', Obj [
                  (''content'', Str ''\"\"''),
                  (''position'', Str ''absolute''),
                  (''inset'', Num 0),
                  (''borderRadius'', Str ''50%''),
                  (''padding'', Str ''6px''),
                  (''background'', Str ''linear-gradient(to right, #3a86ff, #ff006e)''),
                  (''WebkitMask'', Str ''linear-gradient(#fff 0 0) content-box, linear-gradient(#fff 0 0)''),
                  (''WebkitMaskComposite'', Str ''xor''),
                  (''maskComposite'', Str ''exclude'')])]] []]]]]"

text \<open>About section.\<close>

definition aboutSection :: "bool \<Rightarrow> vnode" where
  "aboutSection darkMode =
   Elem ''Box'' [
       str ''component'' ''section'',
       str ''id'' ''about'',
       sx [(''py'', Num 12),
           (''bgcolor'', Str (if darkMode then ''#0a1929'' else ''#f8fafc'')),
           (''position'', Str ''relative''),
           (''overflow'', Str ''hidden'')]] [
     Elem ''Box'' [(''sx'', Val (get_prop (styles darkMode) ''sectionShape''))] [],
     Elem ''Container'' [str ''maxWidth'' ''md'', (''sx'', Val (get_prop (styles darkMode) ''sectionContainer''))] [
       Elem ''Typography'' [
           str ''variant'' ''h3'',
           str ''component'' ''h2'',
           (''sx'', Val (get_prop (styles darkMode) ''sectionTitle'')),
           str ''data-aos'' ''fade-up'']
         [Text ''About Me''],
       Elem ''Divider'' [(''sx'', Val (get_prop (styles darkMode) ''divider''))] [],
       Elem ''Paper'' [
           num ''elevation'' 0,
           sx [(''p'', Num 4),
               (''borderRadius'', Num 4),
               (''background'', Str (if darkMode then ''rgba(19, 47, 76, 0.5)'' else ''rgba(255, 255, 255, 0.8)'')),
               (''backdropFilter'', Str ''blur(10px)''),
               (''border'', Str (if darkMode then ''1px solid rgba(255, 255, 255, 0.05)'' else ''1px solid rgba(0, 0, 0, 0.05)''))]] [
         Elem ''Typography'' [
             str ''variant'' ''body1'',
             flag ''paragraph'',
             sx [(''fontSize'', Str ''1.1rem''), (''lineHeight'', Num (17 / 10))]]
           [Text ''With over 5 years of experience in web development, I specialize in creating high-performance, responsive web applications using React, Next.js, and Node.js. My approach combines technical expertise with a strong focus on user experience and clean, maintainable code.''],
         Elem ''Typography'' [
             str ''variant'' ''body1'',
             flag ''paragraph'',
             sx [(''fontSize'', Str ''1.1rem''), (''lineHeight'', Num (17 / 10))]]
           [Text ''Previously, I worked at XYZ Technologies where I led the frontend development team, improving application performance by 40% and implementing CI/CD pipelines that reduced deployment time by 65%. I'm passionate about sharing knowledge and have contributed to several open-source projects.''],
         Elem ''Box'' [sx [(''mt'', Num 4), (''display'', Str ''flex''), (''gap'', Num 2), (''justifyContent'', Str ''center'')]] [
           Elem ''Button'' [
               str ''variant'' ''contained'',
               str ''color'' ''primary'',
               str ''href'' ''/resume.pdf'',
               str ''target'' ''_blank'',
               sx [(''background'', Str ''linear-gradient(to right, #3a86ff, #5e60ce)'')]]
             [Text ''Download Resume'']]]]]"

text \<open>Projects section: one card per project, one chip per technology of a project.\<close>

definition technologyChip :: "bool \<Rightarrow> nat \<times> string \<Rightarrow> vnode" where
  "technologyChip darkMode = (\<lambda>(techIndex, tech).
   Elem ''Box'' [
       num ''key'' (of_nat techIndex),
       str ''component'' ''span'',
       sx [(''px'', Num (15 / 10)),
           (''py'', Num (1 / 2)),
           (''bgcolor'', Str (if darkMode then ''rgba(58, 134, 255, 0.15)'' else ''#eef6ff'')),
           (''color'', Str (if darkMode then ''#90caf9'' else ''#1565c0'')),
           (''borderRadius'', Num 10),
           (''fontSize'', Str ''0.75rem''),
           (''fontWeight'', Num 600)]]
     [Text tech])"

definition projectCard :: "bool \<Rightarrow> nat \<times> project \<Rightarrow> vnode" where
  "projectCard darkMode = (\<lambda>(index, project).
   Elem ''Card'' [
       num ''key'' (of_nat index),
       (''sx'', Val (get_prop (styles darkMode) ''projectCard'')),
       num ''elevation'' (if darkMode then 1 else 2)] [
     Elem ''CardContent'' [sx [(''flexGrow'', Num 1)]] [
       Elem ''Typography'' [str ''variant'' ''h5'', str ''component'' ''h3'', str ''fontWeight'' ''bold'', flag ''gutterBottom'']
         [Text (title project)],
       Elem ''Typography'' [str ''variant'' ''body2'', str ''color'' ''text.secondary'', flag ''paragraph'']
         [Text (description project)],
       Elem ''Box'' [sx [(''display'', Str ''flex''), (''flexWrap'', Str ''wrap''), (''gap'', Num 1), (''mb'', Num 2)]]
         [Arr (map (technologyChip darkMode) (enumerate 0 (technologies project)))]],
     Elem ''CardActions'' [sx [(''p'', Num 2), (''pt'', Num 0)]] [
       Elem ''Button'' [
           str ''size'' ''small'',
           str ''href'' (github project),
           str ''target'' ''_blank'',
           str ''rel'' ''noopener noreferrer'',
           (''startIcon'', Node (Elem ''FaGithub'' [] []))]
         [Text ''Code''],
       Elem ''Button'' [
           str ''size'' ''small'',
           str ''href'' (demo project),
           str ''target'' ''_blank'',
           str ''rel'' ''noopener noreferrer'',
           str ''color'' ''primary'']
         [Text ''Live Demo'']]])"

definition projectsSection :: "bool \<Rightarrow> project list \<Rightarrow> vnode" where
  "projectsSection darkMode projects =
   Elem ''Box'' [
       str ''component'' ''section'',
       str ''id'' ''projects'',
       sx [(''py'', Num 12),
           (''bgcolor'', Str (if darkMode then ''#132f4c'' else ''#ffffff'')),
           (''position'', Str ''relative''),
           (''overflow'', Str ''hidden'')]] [
     Elem ''Box'' [(''sx'', Val (spread (get_prop (styles darkMode) ''sectionShape'')
                                  [(''left'', Num (- 100)), (''bottom'', Num (- 150))]))] [],
     Elem ''Container'' [str ''maxWidth'' ''md'', (''sx'', Val (get_prop (styles darkMode) ''sectionContainer''))] [
       Elem ''Typography'' [
           str ''variant'' ''h3'',
           str ''component'' ''h2'',
           (''sx'', Val (get_prop (styles darkMode) ''sectionTitle''))]
         [Text ''Featured Projects''],
       Elem ''Divider'' [(''sx'', Val (get_prop (styles darkMode) ''divider''))] [],
       Elem ''Box'' [sx [(''display'', Str ''flex''), (''flexDirection'', Str ''column''), (''gap'', Num 4)]]
         [Arr (map (projectCard darkMode) (enumerate 0 projects))]]]"

text \<open>
  Skills section. The rows of the frontend and of the backend column are built by two
  callbacks with the same body, \<open>skillRow\<close>.
\<close>

definition skillRow :: "bool \<Rightarrow> nat \<times> skill \<Rightarrow> vnode" where
  "skillRow darkMode = (\<lambda>(index, skill).
   Elem ''Box'' [num ''key'' (of_nat index), sx [(''mb'', Num 4)]] [
     Elem ''Box'' [(''sx'', Val (get_prop (styles darkMode) ''skillLabel''))] [
       Elem ''Typography'' [str ''variant'' ''body1'', str ''color'' ''text.primary'', num ''fontWeight'' 500]
         [Text (name skill)]]])"

definition technologyTag :: "bool \<Rightarrow> string \<Rightarrow> vnode" where
  "technologyTag darkMode tech =
   Elem ''Box'' [
       str ''key'' tech,
       str ''component'' ''span'',
       (''sx'', Val (spread (get_prop (styles darkMode) ''techTag'') [
          (''transition'', Str ''all 0.2s ease''),
          (''&:hover'', Obj [
             (''transform'', Str ''translateY(-3px)''),
             (''boxShadow'', Str ''0 4px 12px rgba(0,0,0,0.1)''),
             (''color'', primary_main darkMode),
             (''borderColor'', primary_main darkMode)])]))]
     [Text tech]"

definition skillsSection :: "bool \<Rightarrow> skill list \<Rightarrow> skill list \<Rightarrow> string list \<Rightarrow> vnode" where
  "skillsSection darkMode frontend backend other =
   Elem ''Box'' [
       str ''component'' ''section'',
       str ''id'' ''skills'',
       sx [(''py'', Num 12),
           (''bgcolor'', Str (if darkMode then ''#0a1929'' else ''#f8fafc'')),
           (''position'', Str ''relative''),
           (''overflow'', Str ''hidden'')]] [
     Elem ''Box'' [(''sx'', Val (spread (get_prop (styles darkMode) ''sectionShape'')
                                  [(''top'', Num (- 100)), (''right'', Str ''30%'')]))] [],
     Elem ''Container'' [str ''maxWidth'' ''md'', (''sx'', Val (get_prop (styles darkMode) ''sectionContainer''))] [
       Elem ''Typography'' [
           str ''variant'' ''h3'',
           str ''component'' ''h2'',
           (''sx'', Val (get_prop (styles darkMode) ''sectionTitle''))]
         [Text ''Technical Skills''],
       Elem ''Divider'' [(''sx'', Val (get_prop (styles darkMode) ''divider''))] [],
       Elem ''Paper'' [
           num ''elevation'' (if darkMode then 1 else 3),
           sx [(''p'', Num 4),
               (''borderRadius'', Num 4),
               (''background'', Str (if darkMode then ''rgba(19, 47, 76, 0.5)'' else ''rgba(255, 255, 255, 0.8)'')),
               (''backdropFilter'', Str ''blur(10px)''),
               (''border'', Str (if darkMode then ''1px solid rgba(255, 255, 255, 0.05)'' else ''1px solid rgba(0, 0, 0, 0.05)''))]] [
         Elem ''MuiGrid'' [flag ''container'', num ''spacing'' 6] [
           Elem ''MuiGrid'' [] [
             Elem ''Typography'' [
                 str ''variant'' ''h5'',
                 str ''component'' ''h3'',
                 str ''fontWeight'' ''600'',
                 flag ''gutterBottom'',
                 sx [(''mb'', Num 3),
                     (''display'', Str ''flex''),
                     (''alignItems'', Str ''center''),
                     (''&::before'', Obj [
                        (''content'', Str ''\"\"''),
                        (''display'', Str ''inline-block''),
                        (''width'', Num 4),
                        (''height'', Num 24),
                        (''borderRadius'', Num 2),
                        (''backgroundColor'', Str ''#3a86ff''),
                        (''marginRight'', Num 2)])]]
               [Text ''Frontend Development''],
             Elem ''Box'' [sx [(''mb'', Num 5)]]
               [Arr (map (skillRow darkMode) (enumerate 0 frontend))]],
           Elem ''MuiGrid'' [] [
             Elem ''Typography'' [
                 str ''variant'' ''h5'',
                 str ''component'' ''h3'',
                 str ''fontWeight'' ''600'',
                 flag ''gutterBottom'',
                 sx [(''mb'', Num 3),
                     (''display'', Str ''flex''),
                     (''alignItems'', Str ''center''),
                     (''&::before'', Obj [
                        (''content'', Str ''\"\"''),
                        (''display'', Str ''inline-block''),
                        (''width'', Num 4),
                        (''height'', Num 24),
                        (''borderRadius'', Num 2),
                        (''backgroundColor'', Str ''#ff006e''),
                        (''marginRight'', Num 2)])]]
               [Text ''Backend Development''],
             Elem ''Box'' [sx [(''mb'', Num 5)]]
               [Arr (map (skillRow darkMode) (enumerate 0 backend))]]],
         Elem ''Box'' [sx [(''mt'', Num 6)]] [
           Elem ''Typography'' [
               str ''variant'' ''h5'',
               str ''component'' ''h3'',
               str ''fontWeight'' ''600'',
               flag ''gutterBottom'',
               sx [(''mb'', Num 3),
                   (''display'', Str ''flex''),
                   (''alignItems'', Str ''center''),
                   (''&::before'', Obj [
                      (''content'', Str ''\"\"''),
                      (''display'', Str ''inline-block''),
                      (''width'', Num 4),
                      (''height'', Num 24),
                      (''borderRadius'', Num 2),
                      (''background'', Str ''linear-gradient(to bottom, #3a86ff, #ff006e)''),
                      (''marginRight'', Num 2)])]]
             [Text ''Other Technologies''],
           Elem ''Box'' [sx [(''display'', Str ''flex''), (''flexWrap'', Str ''wrap''), (''gap'', Num (15 / 10))]]
             [Arr (map (technologyTag darkMode) other)]]]]]"

text \<open>Contact section, with the form.\<close>

definition contactForm :: "bool \<Rightarrow> vnode" where
  "contactForm darkMode =
   Elem ''Box'' [str ''component'' ''form'', (''sx'', Val (get_prop (styles darkMode) ''contactForm''))] [
     Elem ''TextField'' [
         flag ''fullWidth'',
         str ''label'' ''Name'',
         str ''variant'' ''outlined'',
         str ''placeholder'' ''Your name'',
         str ''id'' ''name'',
         (''InputProps'', Val (Obj [(''sx'', Obj [(''borderRadius'', Num 2)])]))] [],
     Elem ''TextField'' [
         flag ''fullWidth'',
         str ''label'' ''Email'',
         str ''variant'' ''outlined'',
         str ''placeholder'' ''your.email@example.com'',
         str ''id'' ''email'',
         str ''type'' ''email'',
         (''InputProps'', Val (Obj [(''sx'', Obj [(''borderRadius'', Num 2)])]))] [],
     Elem ''TextField'' [
         flag ''fullWidth'',
         str ''label'' ''Message'',
         str ''variant'' ''outlined'',
         str ''placeholder'' ''Your message...'',
         str ''id'' ''message'',
         flag ''multiline'',
         num ''rows'' 4,
         (''InputProps'', Val (Obj [(''sx'', Obj [(''borderRadius'', Num 2)])]))] [],
     Elem ''Button'' [
         str ''type'' ''submit'',
         str ''variant'' ''contained'',
         str ''color'' ''primary'',
         flag ''fullWidth'',
         str ''size'' ''large'',
         sx [(''py'', Num (15 / 10)),
             (''borderRadius'', Num 2),
             (''background'', Str ''linear-gradient(to right, #3a86ff, #5e60ce)''),
             (''boxShadow'', Str ''0 4px 14px rgba(58, 134, 255, 0.4)''),
             (''transition'', Str ''all 0.2s ease''),
             (''&:hover'', Obj [
                (''boxShadow'', Str ''0 6px 20px rgba(58, 134, 255, 0.6)''),
                (''transform'', Str ''translateY(-2px)'')])]]
       [Text ''Send Message'']]"

definition contactSection :: "bool \<Rightarrow> vnode" where
  "contactSection darkMode =
   Elem ''Box'' [
       str ''component'' ''section'',
       str ''id'' ''contact'',
       sx [(''py'', Num 12),
           (''bgcolor'', Str (if darkMode then ''#132f4c'' else ''#ffffff'')),
           (''position'', Str ''relative''),
           (''overflow'', Str ''hidden'')]] [
     Elem ''Box'' [(''sx'', Val (spread (get_prop (styles darkMode) ''sectionShape'')
                                  [(''bottom'', Str ''30%''), (''left'', Num (- 100))]))] [],
     Elem ''Container'' [str ''maxWidth'' ''md'', (''sx'', Val (get_prop (styles darkMode) ''sectionContainer''))] [
       Elem ''Typography'' [
           str ''variant'' ''h3'',
           str ''component'' ''h2'',
           (''sx'', Val (get_prop (styles darkMode) ''sectionTitle''))]
         [Text ''Get In Touch''],
       Elem ''Divider'' [(''sx'', Val (get_prop (styles darkMode) ''divider''))] [],
       Elem ''MuiGrid'' [flag ''container'', num ''spacing'' 4] [
         Elem ''MuiGrid'' [] [
           Elem ''Typography'' [
               str ''variant'' ''body1'',
               str ''color'' ''text.secondary'',
               flag ''paragraph'',
               sx [(''mb'', Num 3)]]
             [Text ''I'm currently looking for new opportunities and freelance projects. If you'd like to discuss a potential collaboration or just want to say hi, feel free to reach out!''],
           Elem ''Box'' [sx [(''display'', Str ''flex''), (''flexDirection'', Str ''column''), (''gap'', Num 2)]] [
             Elem ''Link'' [
                 str ''href'' ''mailto:john.doe@example.com'',
                 str ''color'' ''inherit'',
                 str ''underline'' ''none'',
                 sx [(''display'', Str ''flex''),
                     (''alignItems'', Str ''center''),
                     (''transition'', Str ''color 0.2s, transform 0.2s''),
                     (''&:hover'', Obj [
                        (''color'', Str ''#3a86ff''),
                        (''transform'', Str ''translateY(-2px)'')])]] [
               Elem ''HiOutlineMail'' [(''style'', Val (Obj [(''marginRight'', Str ''0.5rem'')]))] [],
               Text ''john.doe@example.com''],
             Elem ''Box'' [sx [(''display'', Str ''flex''), (''gap'', Num 2)]] [
               Elem ''IconButton'' [
                   str ''href'' ''https://github.com/johndoe'',
                   str ''target'' ''_blank'',
                   str ''rel'' ''noopener noreferrer'',
                   str ''color'' ''inherit'',
                   str ''size'' ''small'',
                   sx [(''transition'', Str ''transform 0.2s, color 0.2s''),
                       (''&:hover'', Obj [
                          (''color'', Str (if darkMode then ''#f0f6fc'' else ''#24292e'')),
                          (''transform'', Str ''translateY(-3px)'')])]]
                 [Elem ''FaGithub'' [] []],
               Elem ''IconButton'' [
                   str ''href'' ''https://linkedin.com/in/johndoe'',
                   str ''target'' ''_blank'',
                   str ''rel'' ''noopener noreferrer'',
                   str ''color'' ''inherit'',
                   str ''size'' ''small'',
                   sx [(''transition'', Str ''transform 0.2s, color 0.2s''),
                       (''&:hover'', Obj [
                          (''color'', Str ''#0a66c2''),
                          (''transform'', Str ''translateY(-3px)'')])]]
                 [Elem ''FaLinkedinIn'' [] []],
               Elem ''IconButton'' [
                   str ''href'' ''https://twitter.com/johndoe'',
                   str ''target'' ''_blank'',
                   str ''rel'' ''noopener noreferrer'',
                   str ''color'' ''inherit'',
                   str ''size'' ''small'',
                   sx [(''transition'', Str ''transform 0.2s, color 0.2s''),
                       (''&:hover'', Obj [
                          (''color'', Str ''#1da1f2''),
                          (''transform'', Str ''translateY(-3px)'')])]]
                 [Elem ''FaTwitter'' [] []]]]],
         Elem ''MuiGrid'' [] [
           Elem ''Paper'' [
               num ''elevation'' (if darkMode then 1 else 3),
               sx [(''p'', Num 4),
                   (''borderRadius'', Num 3),
                   (''height'', Str ''100%''),
                   (''backgroundColor'', Str (if darkMode then ''rgba(19, 47, 76, 0.5)'' else ''rgba(255, 255, 255, 0.8)'')),
                   (''backdropFilter'', Str ''blur(10px)''),
                   (''border'', Str (if darkMode then ''1px solid rgba(255, 255, 255, 0.05)'' else ''1px solid rgba(0, 0, 0, 0.05)''))]]
             [contactForm darkMode]]]]]"

text \<open>
  Footer. \<open>currentYear\<close> is \<open>new Date().getFullYear()\<close>, read from the clock while
  rendering. The copyright sign and the heart are their UTF-8 bytes.
\<close>

definition footer :: "bool \<Rightarrow> int \<Rightarrow> vnode" where
  "footer darkMode currentYear =
   Elem ''Box'' [
       str ''component'' ''footer'',
       sx [(''py'', Num 4),
           (''bgcolor'', Str (if darkMode then ''#0a1929'' else ''#f8fafc'')),
           (''borderTop'', Num 1),
           (''borderColor'', Str (if darkMode then ''rgba(255, 255, 255, 0.05)'' else ''rgba(0, 0, 0, 0.05)''))]] [
     Elem ''Container'' [str ''maxWidth'' ''lg''] [
       Elem ''Box'' [sx [
           (''display'', Str ''flex''),
           (''flexDirection'', Obj [(''xs'', Str ''column''), (''md'', Str ''row'')]),
           (''justifyContent'', Str ''space-between''),
           (''alignItems'', Str ''center'')]] [
         Elem ''Typography'' [str ''variant'' ''body2'', str ''color'' ''text.secondary''] [
           Text ([CHR 0xC2, CHR 0xA9] @ '' ''),
           Number currentYear,
           Text '' John Doe. All rights reserved.''],
         Elem ''Typography'' [
             str ''variant'' ''body2'',
             str ''color'' ''text.secondary'',
             sx [(''mt'', Obj [(''xs'', Num 2), (''md'', Num 0)])]]
           [Text (''Designed & Built with '' @ [CHR 0xE2, CHR 0x9D, CHR 0xA4, CHR 0xEF, CHR 0xB8, CHR 0x8F]
                  @ '' using React & Material UI'')]]]]"

text \<open>
  The tree \<open>Home\<close> returns, as a function of what its body reads: the four arrays of
  content, the state \<open>darkMode\<close> and the clock. (\<open>prefersDarkMode\<close> is read by the effect
  only.) The blank between \<open><CssBaseline />\<close> and the comment after it on the same line
  is a text child.
\<close>

definition page :: "catalog \<Rightarrow> bool \<Rightarrow> int \<Rightarrow> vnode" where
  "page c darkMode currentYear =
   Elem ''ThemeProvider'' [(''theme'', Val (theme darkMode))] [
     Elem ''CssBaseline'' [] [],
     Text '' '',
     Elem ''Box'' [(''sx'', Val (get_prop (styles darkMode) ''gradientBg''))] [
       navigationBar darkMode,
       heroSection darkMode,
       aboutSection darkMode,
       projectsSection darkMode (projectsData c),
       skillsSection darkMode (frontendSkills c) (backendSkills c) (otherTechnologies c),
       contactSection darkMode,
       footer darkMode currentYear]]"

definition Home :: "bool \<Rightarrow> int \<Rightarrow> vnode" where
  "Home darkMode currentYear = page content darkMode currentYear"

subsection \<open>\<open>scrollToSection\<close>\<close>

text \<open>
  The browser as \<open>scrollToSection\<close> sees it: the elements of the document in tree
  order, each with its \<open>id\<close> and its \<open>offsetTop\<close>, and the calls made to
  \<open>window.scrollTo\<close> so far.
\<close>

record element =
  elem_id :: string
  offsetTop :: int

record scroll_options =
  behavior :: string
  top :: int

record browser =
  elements :: "element list"
  scrollCalls :: "scroll_options list"

text \<open>\<open>document.getElementById\<close>: the first element with the id, or \<open>null\<close>.\<close>

definition getElementById :: "browser \<Rightarrow> string \<Rightarrow> element option" where
  "getElementById w elementId = find (\<lambda>e. elem_id e = elementId) (elements w)"

definition scrollTo :: "scroll_options \<Rightarrow> browser \<Rightarrow> browser" where
  "scrollTo opts w = w\<lparr>scrollCalls := scrollCalls w @ [opts]\<rparr>"

definition scrollToSection :: "string \<Rightarrow> browser \<Rightarrow> browser" where
  "scrollToSection elementId w =
     (case getElementById w elementId of
        Some element \<Rightarrow> scrollTo \<lparr>behavior = ''smooth'', top = offsetTop element - 64\<rparr> w
      | None \<Rightarrow> w)"

subsection \<open>State: \<open>useState(true)\<close> and the effect on \<open>prefersDarkMode\<close>\<close>

text \<open>
  \<open>darkMode\<close> is the state cell of \<open>useState(true)\<close>. \<open>effectDeps\<close> is the dependency
  array \<open>[prefersDarkMode]\<close> of the last render that was committed: \<open>None\<close> until the
  component has mounted.
\<close>

record home_state =
  darkMode :: bool
  effectDeps :: "bool option"

text \<open>The state of the first render: \<open>useState(true)\<close>, no effect has run yet.\<close>

definition initial :: home_state where
  "initial = \<lparr>darkMode = True, effectDeps = None\<rparr>"

definition setDarkMode :: "bool \<Rightarrow> home_state \<Rightarrow> home_state" where
  "setDarkMode b s = s\<lparr>darkMode := b\<rparr>"

text \<open>
  Committing a render in which \<open>useMediaQuery('(prefers-color-scheme: dark)')\<close> returned
  \<open>prefersDarkMode\<close>: \<open>useEffect(() => setDarkMode(prefersDarkMode), [prefersDarkMode])\<close>
  runs its body on mount and whenever the dependency differs from the one of the
  previous render.
\<close>

definition commit :: "bool \<Rightarrow> home_state \<Rightarrow> home_state" where
  "commit prefersDarkMode s =
     (if effectDeps s = Some prefersDarkMode then s
      else (setDarkMode prefersDarkMode s)\<lparr>effectDeps := Some prefersDarkMode\<rparr>)"

text \<open>The toggle button: \<open>onClick={() => setDarkMode(!darkMode)}\<close>.\<close>

definition toggle :: "home_state \<Rightarrow> home_state" where
  "toggle s = setDarkMode (\<not> darkMode s) s"

text \<open>
  What can happen to the component after its first render: a render is committed with
  some value of the media query, or the user clicks the toggle.
\<close>

datatype event = Commit bool | ToggleClick

fun step :: "home_state \<Rightarrow> event \<Rightarrow> home_state" where
  "step s (Commit prefersDarkMode) = commit prefersDarkMode s"
| "step s ToggleClick = toggle s"

definition run :: "home_state \<Rightarrow> event list \<Rightarrow> home_state" where
  "run s evs = foldl step s evs"

text \<open>Mounting: the first render is committed and the effect runs for the first time.\<close>

definition mount :: "bool \<Rightarrow> home_state" where
  "mount prefersDarkMode = commit prefersDarkMode initial"


subsection \<open>Events\<close>

text \<open>
  Everything a handler of the page can change: the state of the component and the
  browser.
\<close>

record app =
  home :: home_state
  window :: browser

fun perform :: "action \<Rightarrow> app \<Rightarrow> app" where
  "perform (ScrollToSection elementId) a = a\<lparr>window := scrollToSection elementId (window a)\<rparr>"
| "perform (SetDarkMode b) a = a\<lparr>home := setDarkMode b (home a)\<rparr>"

text \<open>
  The handler an element carries for an event attribute such as \<open>onClick\<close> or
  \<open>onSubmit\<close> (of two attributes with one name, JSX keeps the later).
\<close>

fun on_event :: "string \<Rightarrow> vnode \<Rightarrow> action option" where
  "on_event ev (Elem t ps cs) =
     (case map_of (rev ps) ev of Some (Handler h) \<Rightarrow> Some h | _ \<Rightarrow> None)"
| "on_event ev _ = None"

text \<open>
  An event travels from its target through the ancestors of the target; each element
  on the way that carries a handler for it has the handler called. The path lists the
  target first.
\<close>

fun call_handlers :: "string \<Rightarrow> vnode list \<Rightarrow> app \<Rightarrow> app" where
  "call_handlers ev [] a = a"
| "call_handlers ev (n # path) a =
     call_handlers ev path (case on_event ev n of Some h \<Rightarrow> perform h a | None \<Rightarrow> a)"

text \<open>
  Whether a handler calls \<open>preventDefault\<close> on its event. The closures of the source
  take no argument, so neither kind can.
\<close>

fun prevents_default :: "action \<Rightarrow> bool" where
  "prevents_default (ScrollToSection elementId) = False"
| "prevents_default (SetDarkMode b) = False"

definition default_prevented :: "string \<Rightarrow> vnode list \<Rightarrow> bool" where
  "default_prevented ev path =
     list_ex (\<lambda>n. case on_event ev n of Some h \<Rightarrow> prevents_default h | None \<Rightarrow> False) path"

text \<open>
  \<open><Box component="form">\<close> is rendered as a \<open>form\<close> element. The one in the source has no
  \<open>action\<close> and no \<open>method\<close>, so the browser's default action for a submit event on it
  that nobody prevented is a GET navigation to the URL of the document: the page is
  loaded anew. The component is mounted afresh, in the state of its first render, and
  the window of the new document has had no call to \<open>scrollTo\<close>.
\<close>

fun is_form :: "vnode \<Rightarrow> bool" where
  "is_form (Elem t ps cs) = (map_of (rev ps) ''component'' = Some (Val (Str ''form'')))"
| "is_form _ = False"

definition navigate :: "app \<Rightarrow> app" where
  "navigate a = \<lparr>home = initial, window = (window a)\<lparr>scrollCalls := []\<rparr>\<rparr>"

text \<open>
  A submit event: the \<open>onSubmit\<close> handlers on its path are called, then, unless one of
  them prevented it, the default action takes place when the target is a form. (The
  browser sends this event when the user submits the form, by the submit button or the
  Enter key, after it has validated the fields.)
\<close>

definition submit :: "vnode list \<Rightarrow> app \<Rightarrow> app" where
  "submit path a =
     (let a' = call_handlers ''onSubmit'' path a in
      if default_prevented ''onSubmit'' path then a'
      else (case path of
              target # ancestors \<Rightarrow> if is_form target then navigate a' else a'
            | [] \<Rightarrow> a'))"

subsection \<open>Reading a tree\<close>

text \<open>Every node of a tree, parents before children, attributes before children.\<close>

fun subnodes :: "vnode \<Rightarrow> vnode list" where
  "subnodes (Text s) = [Text s]"
| "subnodes (Number n) = [Number n]"
| "subnodes (Arr ns) = Arr ns # concat (map subnodes ns)"
| "subnodes (Elem t ps cs) =
     Elem t ps cs #
     concat (map (\<lambda>(k, a). case a of Node n \<Rightarrow> subnodes n | _ \<Rightarrow> []) ps) @
     concat (map subnodes cs)"

text \<open>The texts among the children, in document order.\<close>

fun texts :: "vnode \<Rightarrow> string list" where
  "texts (Text s) = [s]"
| "texts (Number n) = []"
| "texts (Arr ns) = concat (map texts ns)"
| "texts (Elem t ps cs) = concat (map texts cs)"

text \<open>The numbers among the children, in document order.\<close>

fun numbers :: "vnode \<Rightarrow> int list" where
  "numbers (Text s) = []"
| "numbers (Number n) = [n]"
| "numbers (Arr ns) = concat (map numbers ns)"
| "numbers (Elem t ps cs) = concat (map numbers cs)"

text \<open>Every handler of a tree with the name of its attribute, in document order.\<close>

fun handlers :: "vnode \<Rightarrow> (string \<times> action) list" where
  "handlers (Text s) = []"
| "handlers (Number n) = []"
| "handlers (Arr ns) = concat (map handlers ns)"
| "handlers (Elem t ps cs) =
     concat (map (\<lambda>(k, a). case a of Handler h \<Rightarrow> [(k, h)] | Node n \<Rightarrow> handlers n | Val v \<Rightarrow> []) ps) @
     concat (map handlers cs)"

text \<open>The \<open>id\<close> attributes of the elements with a given tag, in document order.\<close>

fun ids_of :: "string \<Rightarrow> vnode \<Rightarrow> jsval list" where
  "ids_of tag (Text s) = []"
| "ids_of tag (Number n) = []"
| "ids_of tag (Arr ns) = concat (map (ids_of tag) ns)"
| "ids_of tag (Elem t ps cs) =
     (if t = tag then (case map_of (rev ps) ''id'' of Some (Val v) \<Rightarrow> [v] | _ \<Rightarrow> [Undefined]) else []) @
     concat (map (ids_of tag) cs)"

section \<open>Properties\<close>

subsection \<open>Texts, numbers and handlers of the sections\<close>




lemma texts_rows: "concat (map (texts \<circ> skillRow d) (enumerate n ss)) = map name ss"
  by (induction ss arbitrary: n) (simp_all add: skillRow_def)

lemma texts_tags: "concat (map (texts \<circ> technologyTag d) ts) = ts"
  by (induction ts) (simp_all add: technologyTag_def)





lemma texts_skillsSection:
  "texts (skillsSection d fs bs ts) =
     [''Technical Skills'', ''Frontend Development''] @ map name fs @
     [''Backend Development''] @ map name bs @ [''Other Technologies''] @ ts"
  by (simp add: skillsSection_def texts_rows texts_tags)



lemma texts_page:
  "texts (page c d y) =
     '' '' # texts (navigationBar d) @ texts (heroSection d) @ texts (aboutSection d) @
     texts (projectsSection d (projectsData c)) @
     texts (skillsSection d (frontendSkills c) (backendSkills c) (otherTechnologies c)) @
     texts (contactSection d) @ texts (footer d y)"
  by (simp add: page_def)

lemma handlers_chips: "concat (map (handlers \<circ> technologyChip d) its) = []"
  by (induction its) (auto simp: technologyChip_def)

lemma handlers_projectCard: "handlers (projectCard d ip) = []"
  by (cases ip) (simp add: projectCard_def handlers_chips)

lemma handlers_skillRow: "handlers (skillRow d ip) = []"
  by (cases ip) (simp add: skillRow_def)

lemma handlers_technologyTag: "handlers (technologyTag d t) = []"
  by (simp add: technologyTag_def)

lemma handlers_navigationBar:
  "handlers (navigationBar d) = [(''onClick'', ScrollToSection ''about''), (''onClick'', ScrollToSection ''projects''),
     (''onClick'', ScrollToSection ''skills''), (''onClick'', ScrollToSection ''contact''), (''onClick'', SetDarkMode (\<not> d))]"
  by (simp add: navigationBar_def)

lemma handlers_heroSection:
  "handlers (heroSection d) = [(''onClick'', ScrollToSection ''contact''), (''onClick'', ScrollToSection ''projects'')]"
  by (simp add: heroSection_def)

lemma handlers_aboutSection: "handlers (aboutSection d) = []"
  by (simp add: aboutSection_def)

lemma handlers_projectsSection: "handlers (projectsSection d ps) = []"
  by (simp add: projectsSection_def handlers_projectCard)

lemma handlers_skillsSection: "handlers (skillsSection d fs bs ts) = []"
  by (simp add: skillsSection_def handlers_skillRow handlers_technologyTag)

lemma handlers_contactForm: "handlers (contactForm d) = []"
  by (simp add: contactForm_def)

lemma handlers_contactSection: "handlers (contactSection d) = []"
  by (simp add: contactSection_def handlers_contactForm)

lemma handlers_footer: "handlers (footer d y) = []"
  by (simp add: footer_def)

lemma handlers_page:
  "handlers (page c d y) =
     [(''onClick'', ScrollToSection ''about''), (''onClick'', ScrollToSection ''projects''),
      (''onClick'', ScrollToSection ''skills''), (''onClick'', ScrollToSection ''contact''),
      (''onClick'', SetDarkMode (\<not> d)),
      (''onClick'', ScrollToSection ''contact''), (''onClick'', ScrollToSection ''projects'')]"
  by (simp add: page_def handlers_navigationBar handlers_heroSection handlers_aboutSection
      handlers_projectsSection handlers_skillsSection handlers_contactSection handlers_footer)

lemma on_event_self:
  assumes "on_event ev (Elem t ps cs) = Some h"
  shows "(ev, Handler h) \<in> set ps"
proof -
  from assms have "map_of (rev ps) ev = Some (Handler h)"
    by (auto split: option.splits attr.splits)
  then have "(ev, Handler h) \<in> set (rev ps)" by (rule map_of_SomeD)
  then show ?thesis by simp
qed

lemma on_event_handlers:
  "n \<in> set (subnodes t) \<Longrightarrow> on_event ev n = Some h \<Longrightarrow> (ev, h) \<in> set (handlers t)"
proof (induction t arbitrary: n)
  case (Text s)
  then show ?case by simp
next
  case (Number k)
  then show ?case by simp
next
  case (Arr ns)
  then show ?case by auto
next
  case (Elem t ps cs)
  from Elem.prems(1) consider
      (self) "n = Elem t ps cs"
    | (attr) k m where "(k, Node m) \<in> set ps" "n \<in> set (subnodes m)"
    | (child) c where "c \<in> set cs" "n \<in> set (subnodes c)"
    by (auto split: attr.splits)
  then show ?case
  proof cases
    case self
    with Elem.prems(2) have "on_event ev (Elem t ps cs) = Some h" by simp
    then have "(ev, Handler h) \<in> set ps" by (rule on_event_self)
    then show ?thesis by force
  next
    case attr
    have "(ev, h) \<in> set (handlers m)"
    proof (rule Elem.IH(1) [OF attr(1) _ _ attr(2) Elem.prems(2)])
      show "Node m \<in> Basic_BNFs.snds (k, Node m)" by simp
      show "m \<in> set_attr (Node m)" by simp
    qed
    with attr(1) show ?thesis by force
  next
    case child
    have "(ev, h) \<in> set (handlers c)"
      by (rule Elem.IH(2) [OF child(1) child(2) Elem.prems(2)])
    with child(1) show ?thesis by force
  qed
qed

lemma self_in_subnodes: "n \<in> set (subnodes n)"
  by (cases n) simp_all

lemma contactForm_in_contactSection: "contactForm d \<in> set (subnodes (contactSection d))"
  by (simp add: contactSection_def self_in_subnodes)

lemma contactForm_in_page: "contactForm d \<in> set (subnodes (page c d y))"
  by (simp add: page_def contactForm_in_contactSection)

lemma call_handlers_no_handler:
  "\<forall>n \<in> set path. on_event ev n = None \<Longrightarrow> call_handlers ev path a = a"
  by (induction path arbitrary: a) simp_all

lemma default_prevented_no_handler:
  "\<forall>n \<in> set path. on_event ev n = None \<Longrightarrow> \<not> default_prevented ev path"
  by (induction path) (simp_all add: default_prevented_def)

subsection \<open>Theme mode\<close>

lemma effectDeps_commit: "effectDeps (commit q s) = Some q"
  by (simp add: commit_def setDarkMode_def)

lemma effectDeps_toggle: "effectDeps (toggle s) = effectDeps s"
  by (simp add: toggle_def setDarkMode_def)

lemma effectDeps_run_mount: "\<exists>q. effectDeps (run (mount p) evs) = Some q"
proof (induction evs rule: rev_induct)
  case Nil
  show ?case by (simp add: run_def mount_def effectDeps_commit)
next
  case (snoc ev evs)
  then obtain q where q: "effectDeps (run (mount p) evs) = Some q" by blast
  show ?case
  proof (cases ev)
    case (Commit q')
    then show ?thesis by (simp add: run_def effectDeps_commit)
  next
    case ToggleClick
    then show ?thesis using q by (simp add: run_def effectDeps_toggle)
  qed
qed

text \<open>
  C1. Mounting with the media query at \<open>p\<close> leaves \<open>darkMode = p\<close>. After any later
  history of commits and toggle clicks, a commit in which the media query has changed
  (its value \<open>p'\<close> is not the one of the previous render) sets \<open>darkMode\<close> to \<open>p'\<close>,
  whatever the toggle clicks had made of it.
\<close>

theorem environment_signal_overwrites_mode:
  assumes "effectDeps (run (mount p) evs) \<noteq> Some p'"
  shows "darkMode (mount p) = p \<and>
         darkMode (step (run (mount p) evs) (Commit p')) = p'"
  using assms by (simp add: mount_def commit_def setDarkMode_def initial_def)

theorem environment_signal_overwrites_mode_witness:
  "effectDeps (run (mount True) [ToggleClick, Commit False]) \<noteq> Some True \<and>
   darkMode (run (mount True) [ToggleClick]) = False \<and>
   darkMode (run (mount True) [ToggleClick, Commit False]) = False \<and>
   darkMode (mount True) = True \<and>
   darkMode (step (run (mount True) [ToggleClick, Commit False]) (Commit True)) = True"
proof -
  have h: "effectDeps (run (mount True) [ToggleClick, Commit False]) \<noteq> Some True"
    by (simp add: run_def mount_def commit_def toggle_def setDarkMode_def initial_def)
  have d: "darkMode (run (mount True) [ToggleClick]) = False"
          "darkMode (run (mount True) [ToggleClick, Commit False]) = False"
    by (simp_all add: run_def mount_def commit_def toggle_def setDarkMode_def initial_def)
  show ?thesis
    using h d environment_signal_overwrites_mode [OF h] by simp
qed

text \<open>
  C2. The toggle button of the page carries \<open>setDarkMode(!darkMode)\<close>, which is
  \<open>toggle\<close>. Two clicks on it give back the state they started from, and with it the
  theme, its palette, the styles object, each entry of the styles object, and the
  tree.
\<close>

theorem toggle_twice_restores:
  "(''onClick'', SetDarkMode (\<not> darkMode s)) \<in> set (handlers (page c (darkMode s) y)) \<and>
   home (perform (SetDarkMode (\<not> darkMode s)) \<lparr>home = s, window = w\<rparr>) = toggle s \<and>
   run s [ToggleClick, ToggleClick] = s \<and>
   darkMode (toggle (toggle s)) = darkMode s \<and>
   theme (darkMode (toggle (toggle s))) = theme (darkMode s) \<and>
   palette (darkMode (toggle (toggle s))) = palette (darkMode s) \<and>
   styles (darkMode (toggle (toggle s))) = styles (darkMode s) \<and>
   (\<forall>k. get_prop (styles (darkMode (toggle (toggle s)))) k = get_prop (styles (darkMode s)) k) \<and>
   page c (darkMode (toggle (toggle s))) y = page c (darkMode s) y"
  by (simp add: handlers_page run_def toggle_def setDarkMode_def)

text \<open>
  C10. The state of the first render is \<open>useState(true)\<close>: dark, with the dark palette,
  whatever the media query says; the preference only arrives with the effect of the
  first commit, which for a light preference changes the mode.
\<close>

theorem first_render_is_dark:
  "darkMode initial = True \<and>
   effectDeps initial = None \<and>
   get_prop (palette (darkMode initial)) ''mode'' = Str ''dark'' \<and>
   Home (darkMode initial) currentYear = Home True currentYear \<and>
   mount prefersDarkMode = commit prefersDarkMode initial \<and>
   darkMode (commit False initial) = False"
  by (simp add: initial_def mount_def commit_def setDarkMode_def palette_def theme_def)

subsection \<open>Palette\<close>

text \<open>
  C5, as stated: background, surface, primary accent and secondary accent each differ
  between dark and light. It fails on the two accents, which are constants.
\<close>

theorem palette_all_distinct_counterexample:
  "\<not> (background_default True \<noteq> background_default False \<and>
      background_paper True \<noteq> background_paper False \<and>
      primary_main True \<noteq> primary_main False \<and>
      secondary_main True \<noteq> secondary_main False)"
  by (simp add: primary_main_def palette_def theme_def)

lemma styles_entry:
  "get_prop (get_prop (styles d) ''gradientBg'') ''background'' =
     Str (if d then ''linear-gradient(to bottom right, #0a1929, #132f4c)''
          else ''linear-gradient(to bottom right, #f8fafc, #e2e8f0)'')"
  "get_prop (get_prop (styles d) ''navBar'') ''backgroundColor'' =
     Str (if d then ''rgba(19, 47, 76, 0.8)'' else ''rgba(255, 255, 255, 0.8)'')"
  "get_prop (get_prop (styles d) ''heroSection'') ''backgroundColor'' =
     Str (if d then ''#132f4c'' else ''#ffffff'')"
  "get_prop (get_prop (styles d) ''skillProgress'') ''backgroundColor'' =
     Str (if d then ''rgba(255, 255, 255, 0.1)'' else ''rgba(0, 0, 0, 0.05)'')"
  "get_prop (get_prop (styles d) ''techTag'') ''backgroundColor'' =
     Str (if d then ''rgba(255, 255, 255, 0.05)'' else ''rgba(0, 0, 0, 0.03)'')"
  by (simp_all add: styles_def)

text \<open>
  C5, amended. The background and surface colours differ between the modes: the
  palette's \<open>background.default\<close> and \<open>background.paper\<close>, and the backgrounds of the
  style entries \<open>gradientBg\<close>, \<open>navBar\<close>, \<open>heroSection\<close>, \<open>skillProgress\<close> and \<open>techTag\<close>.
  The primary and the secondary accent are \<open>#3a86ff\<close> and \<open>#ff006e\<close> in both modes.
\<close>

theorem palette_backgrounds_distinct_accents_fixed:
  "background_default True \<noteq> background_default False \<and>
   background_paper True \<noteq> background_paper False \<and>
   get_prop (get_prop (styles True) ''gradientBg'') ''background'' \<noteq>
     get_prop (get_prop (styles False) ''gradientBg'') ''background'' \<and>
   get_prop (get_prop (styles True) ''navBar'') ''backgroundColor'' \<noteq>
     get_prop (get_prop (styles False) ''navBar'') ''backgroundColor'' \<and>
   get_prop (get_prop (styles True) ''heroSection'') ''backgroundColor'' \<noteq>
     get_prop (get_prop (styles False) ''heroSection'') ''backgroundColor'' \<and>
   get_prop (get_prop (styles True) ''skillProgress'') ''backgroundColor'' \<noteq>
     get_prop (get_prop (styles False) ''skillProgress'') ''backgroundColor'' \<and>
   get_prop (get_prop (styles True) ''techTag'') ''backgroundColor'' \<noteq>
     get_prop (get_prop (styles False) ''techTag'') ''backgroundColor'' \<and>
   primary_main True = primary_main False \<and>
   secondary_main True = secondary_main False \<and>
   (\<forall>d. primary_main d = Str ''#3a86ff'' \<and> secondary_main d = Str ''#ff006e'')"
  by (simp add: styles_entry background_default_def background_paper_def
      primary_main_def secondary_main_def palette_def theme_def)

subsection \<open>Scrolling\<close>

lemma getElementById_present:
  assumes "\<exists>e \<in> set (elements w). elem_id e = anchorId"
  shows "\<exists>e. getElementById w anchorId = Some e \<and> e \<in> set (elements w) \<and> elem_id e = anchorId"
proof (cases "getElementById w anchorId")
  case None
  with assms show ?thesis by (auto simp: getElementById_def find_None_iff)
next
  case (Some e)
  then show ?thesis by (auto simp: getElementById_def find_Some_iff)
qed

lemma getElementById_absent:
  assumes "\<forall>e \<in> set (elements w). elem_id e \<noteq> anchorId"
  shows "getElementById w anchorId = None"
  using assms by (auto simp: getElementById_def find_None_iff)

text \<open>
  C3. When the document has an element with the id, \<open>scrollToSection\<close> makes exactly
  one call \<open>window.scrollTo({behavior: 'smooth', top: element.offsetTop - 64})\<close>, for the
  element \<open>getElementById\<close> returns, and changes nothing else.
\<close>

theorem scrollToSection_present:
  assumes "\<exists>e \<in> set (elements w). elem_id e = anchorId"
  shows "\<exists>e. getElementById w anchorId = Some e \<and> e \<in> set (elements w) \<and>
             elem_id e = anchorId \<and>
             scrollToSection anchorId w =
               w\<lparr>scrollCalls := scrollCalls w @ [\<lparr>behavior = ''smooth'', top = offsetTop e - 64\<rparr>]\<rparr>"
proof -
  from getElementById_present [OF assms] obtain e where
    e: "getElementById w anchorId = Some e" "e \<in> set (elements w)" "elem_id e = anchorId"
    by blast
  have "scrollToSection anchorId w =
          w\<lparr>scrollCalls := scrollCalls w @ [\<lparr>behavior = ''smooth'', top = offsetTop e - 64\<rparr>]\<rparr>"
    by (simp add: scrollToSection_def scrollTo_def e(1))
  with e show ?thesis by blast
qed

theorem scrollToSection_present_witness:
  "(\<exists>e \<in> set (elements \<lparr>elements = [\<lparr>elem_id = ''about'', offsetTop = 800\<rparr>,
                                         \<lparr>elem_id = ''projects'', offsetTop = 1600\<rparr>],
                             scrollCalls = []\<rparr>). elem_id e = ''projects'') \<and>
   scrollToSection ''projects''
     \<lparr>elements = [\<lparr>elem_id = ''about'', offsetTop = 800\<rparr>,
                  \<lparr>elem_id = ''projects'', offsetTop = 1600\<rparr>],
      scrollCalls = []\<rparr> =
     \<lparr>elements = [\<lparr>elem_id = ''about'', offsetTop = 800\<rparr>,
                  \<lparr>elem_id = ''projects'', offsetTop = 1600\<rparr>],
      scrollCalls = [\<lparr>behavior = ''smooth'', top = 1536\<rparr>]\<rparr>"
proof -
  let ?w = "\<lparr>elements = [\<lparr>elem_id = ''about'', offsetTop = 800\<rparr>,
                          \<lparr>elem_id = ''projects'', offsetTop = 1600\<rparr>],
              scrollCalls = []\<rparr>"
  have h: "\<exists>e \<in> set (elements ?w). elem_id e = ''projects''" by simp
  from scrollToSection_present [OF h] obtain e where
    e: "getElementById ?w ''projects'' = Some e"
       "scrollToSection ''projects'' ?w =
          ?w\<lparr>scrollCalls := scrollCalls ?w @ [\<lparr>behavior = ''smooth'', top = offsetTop e - 64\<rparr>]\<rparr>"
    by blast
  from e(1) have "e = \<lparr>elem_id = ''projects'', offsetTop = 1600\<rparr>"
    by (simp add: getElementById_def)
  with e(2) h show ?thesis by simp
qed

text \<open>
  C4. When no element of the document has the id, \<open>scrollToSection\<close> returns the
  browser as it found it: no call to \<open>window.scrollTo\<close>, nothing else touched. The
  function has no branch that throws.
\<close>

theorem scrollToSection_absent:
  assumes "\<forall>e \<in> set (elements w). elem_id e \<noteq> anchorId"
  shows "getElementById w anchorId = None \<and> scrollToSection anchorId w = w \<and>
         scrollCalls (scrollToSection anchorId w) = scrollCalls w"
  using getElementById_absent [OF assms] by (simp add: scrollToSection_def)

theorem scrollToSection_absent_witness:
  "getElementById \<lparr>elements = [\<lparr>elem_id = ''about'', offsetTop = 800\<rparr>],
                   scrollCalls = [\<lparr>behavior = ''smooth'', top = 0\<rparr>]\<rparr> ''blog'' = None \<and>
   scrollToSection ''blog''
     \<lparr>elements = [\<lparr>elem_id = ''about'', offsetTop = 800\<rparr>],
      scrollCalls = [\<lparr>behavior = ''smooth'', top = 0\<rparr>]\<rparr> =
     \<lparr>elements = [\<lparr>elem_id = ''about'', offsetTop = 800\<rparr>],
      scrollCalls = [\<lparr>behavior = ''smooth'', top = 0\<rparr>]\<rparr>"
proof -
  let ?w = "\<lparr>elements = [\<lparr>elem_id = ''about'', offsetTop = 800\<rparr>],
              scrollCalls = [\<lparr>behavior = ''smooth'', top = 0\<rparr>]\<rparr>"
  have h: "\<forall>e \<in> set (elements ?w). elem_id e \<noteq> ''blog''" by simp
  show ?thesis using scrollToSection_absent [OF h] by simp
qed

subsection \<open>Rendering\<close>

lemma numbers_chips: "concat (map (numbers \<circ> technologyChip d) its) = []"
  by (induction its) (auto simp: technologyChip_def)

lemma numbers_projectCard: "numbers (projectCard d ip) = []"
  by (cases ip) (simp add: projectCard_def numbers_chips)

lemma numbers_skillRow: "numbers (skillRow d ip) = []"
  by (cases ip) (simp add: skillRow_def)

lemma numbers_technologyTag: "numbers (technologyTag d t) = []"
  by (simp add: technologyTag_def)

lemma numbers_sections:
  "numbers (navigationBar d) = []"
  "numbers (heroSection d) = []"
  "numbers (aboutSection d) = []"
  "numbers (projectsSection d ps) = []"
  "numbers (skillsSection d fs bs ts) = []"
  "numbers (contactSection d) = []"
  "numbers (footer d y) = [y]"
  by (simp_all add: navigationBar_def heroSection_def aboutSection_def projectsSection_def
      skillsSection_def contactSection_def contactForm_def footer_def
      numbers_projectCard numbers_skillRow numbers_technologyTag)

lemma numbers_page: "numbers (page c d y) = [y]"
  by (simp add: page_def numbers_sections)

text \<open>
  C6, as stated: two renders with the same mode and the same catalog give the same
  tree. The footer shows \<open>new Date().getFullYear()\<close>, so a render in 2024 and a render
  in 2025 differ.
\<close>

theorem render_reads_the_clock_counterexample:
  "\<not> (page content True 2024 = page content True 2025)"
  by (simp add: page_def footer_def)

text \<open>
  C6, amended. The tree is a function of the mode, the catalog and the current year:
  with the same mode and catalog, two renders are equal exactly when their years are
  equal, and the year is the only number the tree shows.
\<close>

theorem render_function_of_mode_catalog_year:
  "(page c d y = page c d y') = (y = y') \<and>
   (Home d y = Home d y') = (y = y') \<and>
   numbers (page c d y) = [y]"
  by (simp add: Home_def page_def footer_def numbers_sections)


lemma skillRow_name_only:
  "name s' = name s \<Longrightarrow> skillRow d (i, s') = skillRow d (i, s)"
  unfolding skillRow_def by simp

lemma rows_name_only:
  "map name ss' = map name ss \<Longrightarrow>
     map (skillRow d) (enumerate n ss') = map (skillRow d) (enumerate n ss)"
proof (induction ss arbitrary: ss' n)
  case Nil
  then show ?case by simp
next
  case (Cons s ss)
  from Cons.prems obtain t ts where ss': "ss' = t # ts" by (cases ss') simp_all
  from Cons.prems ss' have nm: "name t = name s" and tl: "map name ts = map name ss" by simp_all
  have "skillRow d (n, t) = skillRow d (n, s)" using nm by (rule skillRow_name_only)
  moreover have "map (skillRow d) (enumerate (Suc n) ts) = map (skillRow d) (enumerate (Suc n) ss)"
    using tl by (rule Cons.IH)
  ultimately show ?case unfolding ss' by (simp only: enumerate_simps list.map)
qed

lemma skillsSection_name_only:
  assumes "map name fs' = map name fs" and "map name bs' = map name bs"
  shows "skillsSection d fs' bs' ts = skillsSection d fs bs ts"
  unfolding skillsSection_def
  by (simp only: rows_name_only [OF assms(1)] rows_name_only [OF assms(2)])

lemma names_in_texts:
  "set (map name (frontendSkills c)) \<union> set (map name (backendSkills c)) \<subseteq> set (texts (page c d y))"
  unfolding texts_page texts_skillsSection by auto

text \<open>
  C8. Two catalogs whose skills have the same names in the same order, whatever their
  proficiency values, render to the same tree; and every skill name is among the texts
  of the page.
\<close>

theorem proficiency_not_rendered:
  assumes "map name (frontendSkills c') = map name (frontendSkills c)"
      and "map name (backendSkills c') = map name (backendSkills c)"
      and "projectsData c' = projectsData c"
      and "otherTechnologies c' = otherTechnologies c"
  shows "page c' d y = page c d y \<and>
         set (map name (frontendSkills c)) \<union> set (map name (backendSkills c))
           \<subseteq> set (texts (page c d y))"
proof -
  have "skillsSection d (frontendSkills c') (backendSkills c') (otherTechnologies c') =
        skillsSection d (frontendSkills c) (backendSkills c) (otherTechnologies c)"
    by (simp only: assms(4) skillsSection_name_only [OF assms(1) assms(2)])
  then have "page c' d y = page c d y"
    unfolding page_def by (simp only: assms(3))
  from this names_in_texts show ?thesis by (rule conjI)
qed

theorem proficiency_not_rendered_witness:
  "page (content\<lparr>frontendSkills := map (\<lambda>s. s\<lparr>proficiency := 0\<rparr>) (frontendSkills content),
                 backendSkills := map (\<lambda>s. s\<lparr>proficiency := 100\<rparr>) (backendSkills content)\<rparr>)
        True 2025 = Home True 2025 \<and>
   map proficiency (frontendSkills content) = [95, 90, 85] \<and>
   map proficiency (backendSkills content) = [85, 80, 75] \<and>
   ''GraphQL'' \<in> set (texts (Home True 2025))"
proof -
  let ?c' = "content\<lparr>frontendSkills := map (\<lambda>s. s\<lparr>proficiency := 0\<rparr>) (frontendSkills content),
                 backendSkills := map (\<lambda>s. s\<lparr>proficiency := 100\<rparr>) (backendSkills content)\<rparr>"
  have h1: "map name (frontendSkills ?c') = map name (frontendSkills content)" by (simp add: comp_def)
  have h2: "map name (backendSkills ?c') = map name (backendSkills content)" by (simp add: comp_def)
  have h3: "projectsData ?c' = projectsData content" by simp
  have h4: "otherTechnologies ?c' = otherTechnologies content" by simp
  have p: "map proficiency (frontendSkills content) = [95, 90, 85]"
          "map proficiency (backendSkills content) = [85, 80, 75]"
    by (simp_all add: content_def)
  have g: "''GraphQL'' \<in> set (map name (backendSkills content))"
    by (simp add: content_def)
  note t = proficiency_not_rendered [OF h1 h2 h3 h4, of True 2025]
  from t have r: "page ?c' True 2025 = page content True 2025"
    by (rule conjunct1)
  from t have i: "set (map name (frontendSkills content)) \<union> set (map name (backendSkills content))
           \<subseteq> set (texts (page content True 2025))"
    by (rule conjunct2)
  from g i have "''GraphQL'' \<in> set (texts (page content True 2025))" by blast
  with r p show ?thesis unfolding Home_def by (intro conjI)
qed

subsection \<open>Contact form\<close>

text \<open>
  C9, as stated: submitting the form changes no application state. The user has
  toggled a dark page to light; the submit event reaches the form, finds no handler,
  nothing prevents its default action, and the page that is loaded anew starts dark.
\<close>

theorem submit_changes_no_state_counterexample:
  "\<not> (submit [contactForm False]
          \<lparr>home = toggle (mount True), window = \<lparr>elements = [], scrollCalls = []\<rparr>\<rparr> =
        \<lparr>home = toggle (mount True), window = \<lparr>elements = [], scrollCalls = []\<rparr>\<rparr>)"
  by (simp add: submit_def default_prevented_def navigate_def contactForm_def
      toggle_def mount_def commit_def setDarkMode_def initial_def)

lemma is_form_contactForm: "is_form (contactForm d)"
  by (simp add: contactForm_def)

text \<open>
  C9, amended. The form is in the page; its text fields are \<open>name\<close>, \<open>email\<close> and
  \<open>message\<close>; it carries no handler at all, and no element of the page carries an
  \<open>onSubmit\<close> handler. So a submit event on the form, whatever ancestors in the page it
  travels through, calls no handler of the component: no application-level operation
  takes place. Nothing prevents the default action either, so the browser loads the
  page anew: the component is back in the state of its first render (dark, effect not
  yet run) and no scroll call has been made.
\<close>

theorem contact_form_submit_reloads:
  "contactForm d \<in> set (subnodes (page c d y)) \<and>
   is_form (contactForm d) \<and>
   ids_of ''TextField'' (contactForm d) = [Str ''name'', Str ''email'', Str ''message''] \<and>
   on_event ''onSubmit'' (contactForm d) = None \<and>
   handlers (contactForm d) = [] \<and>
   (\<forall>n \<in> set (subnodes (page c d y)). on_event ''onSubmit'' n = None) \<and>
   (\<forall>ancestors a. set ancestors \<subseteq> set (subnodes (page c d y)) \<longrightarrow>
      call_handlers ''onSubmit'' (contactForm d # ancestors) a = a \<and>
      \<not> default_prevented ''onSubmit'' (contactForm d # ancestors) \<and>
      submit (contactForm d # ancestors) a = navigate a \<and>
      home (submit (contactForm d # ancestors) a) = initial \<and>
      scrollCalls (window (submit (contactForm d # ancestors) a)) = [] \<and>
      elements (window (submit (contactForm d # ancestors) a)) = elements (window a))"
proof -
  have none: "on_event ''onSubmit'' n = None" if "n \<in> set (subnodes (page c d y))" for n
  proof (cases "on_event ''onSubmit'' n")
    case None
    then show ?thesis .
  next
    case (Some h)
    with that have "(''onSubmit'', h) \<in> set (handlers (page c d y))"
      by (rule on_event_handlers)
    then show ?thesis by (simp add: handlers_page)
  qed
  have form: "ids_of ''TextField'' (contactForm d) = [Str ''name'', Str ''email'', Str ''message'']"
             "on_event ''onSubmit'' (contactForm d) = None"
    by (simp_all add: contactForm_def)
  have ev: "call_handlers ''onSubmit'' (contactForm d # ancestors) a = a \<and>
      \<not> default_prevented ''onSubmit'' (contactForm d # ancestors) \<and>
      submit (contactForm d # ancestors) a = navigate a \<and>
      home (submit (contactForm d # ancestors) a) = initial \<and>
      scrollCalls (window (submit (contactForm d # ancestors) a)) = [] \<and>
      elements (window (submit (contactForm d # ancestors) a)) = elements (window a)"
    if sub: "set ancestors \<subseteq> set (subnodes (page c d y))" for ancestors a
  proof -
    have all: "\<forall>n \<in> set (contactForm d # ancestors). on_event ''onSubmit'' n = None"
      using sub none contactForm_in_page [of d c y] by auto
    have h: "call_handlers ''onSubmit'' (contactForm d # ancestors) a = a"
      using all by (rule call_handlers_no_handler)
    have p: "\<not> default_prevented ''onSubmit'' (contactForm d # ancestors)"
      using all by (rule default_prevented_no_handler)
    have s: "submit (contactForm d # ancestors) a = navigate a"
      unfolding submit_def by (simp only: h p Let_def if_False list.case is_form_contactForm if_True)
    from h p s show ?thesis by (simp add: navigate_def)
  qed
  from contactForm_in_page is_form_contactForm form handlers_contactForm none ev
  show ?thesis by blast
qed

theorem contact_form_submit_reloads_witness:
  "contactForm False \<in> set (subnodes (Home False 2025)) \<and>
   call_handlers ''onSubmit'' [contactForm False]
     \<lparr>home = toggle (mount True), window = \<lparr>elements = [], scrollCalls = []\<rparr>\<rparr> =
     \<lparr>home = toggle (mount True), window = \<lparr>elements = [], scrollCalls = []\<rparr>\<rparr> \<and>
   darkMode (toggle (mount True)) = False \<and>
   darkMode (home (submit [contactForm False]
     \<lparr>home = toggle (mount True), window = \<lparr>elements = [], scrollCalls = []\<rparr>\<rparr>)) = True"
proof -
  let ?a = "\<lparr>home = toggle (mount True), window = \<lparr>elements = [], scrollCalls = []\<rparr>\<rparr>"
  note t = contact_form_submit_reloads [of False content 2025]
  from t have in_page: "contactForm False \<in> set (subnodes (page content False 2025))"
    by blast
  have sub: "set [] \<subseteq> set (subnodes (page content False 2025))" by simp
  from t sub have c: "call_handlers ''onSubmit'' [contactForm False] ?a = ?a"
    by blast
  from t sub have "home (submit [contactForm False] ?a) = initial"
    by blast
  then have d: "darkMode (home (submit [contactForm False] ?a)) = True"
    by (simp add: initial_def)
  have b: "darkMode (toggle (mount True)) = False"
    by (simp add: toggle_def mount_def commit_def setDarkMode_def initial_def)
  from in_page c b d show ?thesis unfolding Home_def by (intro conjI)
qed

end
